theory Spec2Isabelle
  imports Complex_Main "HOL-Library.Sublist"
begin

section \<open>Data model\<close>

text \<open>
  The value of a record's \<^verbatim>\<open>url\<close> property as \<^verbatim>\<open>deduplicateByUrl\<close> reads it:
  a string, or \<^verbatim>\<open>undefined\<close> when the property is absent. The JavaScript \<^verbatim>\<open>Set\<close>
  compares such keys with SameValueZero, which on strings and \<^verbatim>\<open>undefined\<close> is
  equality; the value \<^verbatim>\<open>undefined\<close> is a key of its own, different from every string
  (also from the string \<^verbatim>\<open>"undefined"\<close>).
\<close>

datatype url_key = Undefined | Url string

text \<open>
  A search record (issue, pull request, code hit, commit, repository): the \<^verbatim>\<open>url\<close>
  property and the remaining properties, which the code under study never inspects.
\<close>

record 'p item =
  url :: url_key
  props :: 'p

section \<open>The deduplicator (routes/chat.js, lines 126-135)\<close>

text \<open>
  \<^verbatim>\<open>Array.prototype.filter\<close> with a callback that reads and updates a local state
  (here the \<^verbatim>\<open>seen\<close> set): the elements are visited from left to right, the
  callback decides for each whether it is kept, and the state is threaded through.
\<close>

fun array_filter :: "('s \<Rightarrow> 'a \<Rightarrow> bool \<times> 's) \<Rightarrow> 'a list \<Rightarrow> 's \<Rightarrow> 'a list \<times> 's" where
  "array_filter f [] s = ([], s)"
| "array_filter f (x # xs) s =
     (let (keep, s') = f s x;
          (ys, s'') = array_filter f xs s'
      in (if keep then x # ys else ys, s''))"

text \<open>
  The arrow function of \<^verbatim>\<open>deduplicateByUrl\<close>:
  \<^verbatim>\<open>if (seen.has(item.url)) return false; seen.add(item.url); return true;\<close>
\<close>

definition dedup_callback :: "url_key set \<Rightarrow> 'p item \<Rightarrow> bool \<times> url_key set" where
  "dedup_callback seen it =
     (if url it \<in> seen then (False, seen) else (True, insert (url it) seen))"

definition deduplicateByUrl :: "'p item list \<Rightarrow> 'p item list" where
  "deduplicateByUrl items = fst (array_filter dedup_callback items {})"

text \<open>
  The specification's wording, for comparison: position \<open>i\<close> of the input is a first
  occurrence when no earlier position carries the same \<^verbatim>\<open>url\<close> key; the result is the
  subsequence of the records at the first occurrences, in the original order.
\<close>

definition first_occurrence :: "'p item list \<Rightarrow> nat \<Rightarrow> bool" where
  "first_occurrence xs i = (\<forall>j<i. url (xs ! j) \<noteq> url (xs ! i))"

definition first_occurrences :: "'p item list \<Rightarrow> 'p item list" where
  "first_occurrences xs = map (\<lambda>i. xs ! i) (filter (first_occurrence xs) [0..<length xs])"

text \<open>The example of the specification: records that carry only a \<^verbatim>\<open>url\<close>.\<close>

definition rec_url :: "string \<Rightarrow> unit item" where
  "rec_url u = \<lparr>url = Url u, props = ()\<rparr>"

definition example_input :: "unit item list" where
  "example_input = [rec_url ''a'', rec_url ''b'', rec_url ''a'', rec_url ''c'', rec_url ''b'']"

definition example_output :: "unit item list" where
  "example_output = [rec_url ''a'', rec_url ''b'', rec_url ''c'']"

section \<open>The GitHub service (services/github.js)\<close>

text \<open>
  What a promise is rejected with, or a \<^verbatim>\<open>throw\<close> throws. JavaScript can throw any
  value; the code under study reads only the \<^verbatim>\<open>message\<close> property of what it catches
  and calls \<^verbatim>\<open>includes\<close> on it. So a thrown value is \<^verbatim>\<open>null\<close> or \<^verbatim>\<open>undefined\<close>
  (reading a property of it throws), or any other value, given by what its \<^verbatim>\<open>message\<close>
  reads: nothing (\<^verbatim>\<open>undefined\<close> or \<^verbatim>\<open>null\<close>), a string, or a value that is not a
  string, given by what \<^verbatim>\<open>message.includes(x)\<close> does for a string \<open>x\<close>: it returns a
  truthy or a falsy value, or it throws (\<open>None\<close>), as it does when the value has no
  such method (a number, a boolean, a plain object).
\<close>

datatype js_message = NoMessage | StringMessage string | OtherMessage "string \<Rightarrow> bool option"

datatype thrown = Nullish | Error js_message

text \<open>
  Modelled from the spec: why the failing operation failed, which the code cannot see.
  The specification's error taxonomy separates the case that the language-model
  collaborator rejects the provided credential (\<open>CredentialRejected\<close>, its
  \<^emph>\<open>AuthenticationError\<close>) from every other failure.
\<close>

datatype cause = CredentialRejected | OtherCause

text \<open>
  A rejection: its cause and the thrown value. A rejected promise of an \<^verbatim>\<open>async\<close>
  function is the \<open>Inl\<close> of a sum, a fulfilled one the \<open>Inr\<close>.
\<close>

datatype js_error = Rejection (cause: cause) (thrown: thrown)

text \<open>A \<^verbatim>\<open>TypeError\<close> that the JavaScript engine throws, with its message.\<close>

definition TypeError :: "string \<Rightarrow> js_error" where
  "TypeError m = Rejection OtherCause (Error (StringMessage m))"

text \<open>
  A value that \<^verbatim>\<open>JSON.parse\<close> returns: \<^verbatim>\<open>null\<close>, a boolean, a number, a string, an
  array, or an object with its properties. The arrays are arrays of records, as
  \<^verbatim>\<open>gh ... --json\<close> prints them for the list and search commands.
\<close>

datatype 'p json =
    JNull
  | JBool bool
  | JNumber real
  | JString string
  | JArray "'p item list"
  | JObject "(string \<times> 'p json) list"

text \<open>
  Truthiness: \<^verbatim>\<open>null\<close>, \<^verbatim>\<open>false\<close>, \<^verbatim>\<open>0\<close> and the empty string are falsy, every
  array and every object is truthy.
\<close>

fun json_truthy :: "'p json \<Rightarrow> bool" where
  "json_truthy JNull = False"
| "json_truthy (JBool b) = b"
| "json_truthy (JNumber x) = (x \<noteq> 0)"
| "json_truthy (JString s) = (s \<noteq> [])"
| "json_truthy (JArray xs) = True"
| "json_truthy (JObject ps) = True"

text \<open>
  Calls that leave the process, in the order they are made: a \<^verbatim>\<open>gh\<close> command line run
  by \<^verbatim>\<open>execSync\<close>, and the two calls to the language-model service.
\<close>

datatype call =
    GhExec string
  | ExtractSearchKeywords string string
  | GenerateResponse string string

record 'w state =
  world :: 'w
  calls :: "call list"

text \<open>
  The surroundings of the service: the environment variable \<^verbatim>\<open>GITHUB_ORG\<close>,
  \<^verbatim>\<open>child_process.execSync\<close> on a command line (it throws on a process error or a
  non-zero exit status, and may change the outside world \<open>'w\<close>), \<^verbatim>\<open>JSON.parse\<close>
  (it throws on text that is not JSON), and the text that a template literal prints
  for a number. The type \<open>'n\<close> of JavaScript numbers is left open: the service only
  writes the literals 5, 10 and 20 and prints numbers.
\<close>

record ('w, 'p, 'n) process =
  env_GITHUB_ORG :: "string option"
  execSync :: "string \<Rightarrow> 'w \<Rightarrow> (js_error + string) \<times> 'w"
  JSON_parse :: "string \<Rightarrow> js_error + 'p json"
  Number_toString :: "'n \<Rightarrow> string"

text \<open>\<^verbatim>\<open>process.env.GITHUB_ORG || 'brandnewbox'\<close>: unset and empty both give the default.\<close>

definition GITHUB_ORG :: "('w, 'p, 'n) process \<Rightarrow> string" where
  "GITHUB_ORG P =
     (case env_GITHUB_ORG P of
        None \<Rightarrow> ''brandnewbox''
      | Some v \<Rightarrow> if v = [] then ''brandnewbox'' else v)"

text \<open>The body of the \<^verbatim>\<open>try\<close> block of \<^verbatim>\<open>ghCommand\<close>: run the command, parse its output.\<close>

definition ghCommand_try ::
  "('w, 'p, 'n) process \<Rightarrow> string \<Rightarrow> 'w state \<Rightarrow> (js_error + 'p json) \<times> 'w state" where
  "ghCommand_try P args s =
     (let cmd = ''gh '' @ args;
          (result, w') = execSync P cmd (world s);
          s' = \<lparr>world = w', calls = calls s @ [GhExec cmd]\<rparr>
      in case result of
           Inl e \<Rightarrow> (Inl e, s')
         | Inr out \<Rightarrow> (JSON_parse P out, s'))"

text \<open>\<^verbatim>\<open>ghCommand\<close>: the \<^verbatim>\<open>catch\<close> block logs the error and returns \<^verbatim>\<open>null\<close>.\<close>

definition ghCommand ::
  "('w, 'p, 'n) process \<Rightarrow> string \<Rightarrow> 'w state \<Rightarrow> 'p json \<times> 'w state" where
  "ghCommand P args s =
     (case ghCommand_try P args s of
        (Inl e, s') \<Rightarrow> (JNull, s')
      | (Inr v, s') \<Rightarrow> (v, s'))"

text \<open>\<^verbatim>\<open>x || []\<close>: a truthy value is returned as it is, a falsy one gives the empty array.\<close>

definition or_empty :: "'p json \<Rightarrow> 'p json" where
  "or_empty v = (if json_truthy v then v else JArray [])"

text \<open>The default parameter \<^verbatim>\<open>limit = 20\<close>: \<open>None\<close> is a call without the argument.\<close>

fun limit_or_default :: "'n::numeral option \<Rightarrow> 'n" where
  "limit_or_default None = 20"
| "limit_or_default (Some n) = n"

text \<open>
  The argument strings that the template literals of the five functions build; the
  search query is the caller's query followed by the organisation filter.
\<close>

definition listRepos_args :: "('w, 'p, 'n) process \<Rightarrow> string" where
  \<open>listRepos_args P =
     ''repo list '' @ GITHUB_ORG P @ '' --json name,description,url,updatedAt --limit 100''\<close>

definition searchIssues_args ::
  "('w, 'p, 'n::numeral) process \<Rightarrow> string \<Rightarrow> 'n option \<Rightarrow> string" where
  \<open>searchIssues_args P query limit =
     (let searchQuery = query @ '' org:'' @ GITHUB_ORG P
      in ''search issues "'' @ searchQuery
         @ ''" --json title,body,url,repository,state,createdAt,author --limit ''
         @ Number_toString P (limit_or_default limit))\<close>

definition searchPullRequests_args ::
  "('w, 'p, 'n::numeral) process \<Rightarrow> string \<Rightarrow> 'n option \<Rightarrow> string" where
  \<open>searchPullRequests_args P query limit =
     (let searchQuery = query @ '' org:'' @ GITHUB_ORG P
      in ''search prs "'' @ searchQuery
         @ ''" --json title,body,url,repository,state,createdAt,author --limit ''
         @ Number_toString P (limit_or_default limit))\<close>

definition searchCode_args ::
  "('w, 'p, 'n::numeral) process \<Rightarrow> string \<Rightarrow> 'n option \<Rightarrow> string" where
  \<open>searchCode_args P query limit =
     (let searchQuery = query @ '' org:'' @ GITHUB_ORG P
      in ''search code "'' @ searchQuery
         @ ''" --json path,repository,url --limit ''
         @ Number_toString P (limit_or_default limit))\<close>

definition searchCommits_args ::
  "('w, 'p, 'n::numeral) process \<Rightarrow> string \<Rightarrow> 'n option \<Rightarrow> string" where
  \<open>searchCommits_args P query limit =
     (let searchQuery = query @ '' org:'' @ GITHUB_ORG P
      in ''search commits "'' @ searchQuery
         @ ''" --json sha,commit,repository,url --limit ''
         @ Number_toString P (limit_or_default limit))\<close>

text \<open>
  The five \<^verbatim>\<open>async\<close> functions: one \<^verbatim>\<open>ghCommand\<close> each, and \<^verbatim>\<open>result || []\<close>. None
  of them has a statement that throws outside \<^verbatim>\<open>ghCommand\<close>'s \<^verbatim>\<open>try\<close>, so each
  promise is fulfilled.
\<close>

definition listRepos ::
  "('w, 'p, 'n) process \<Rightarrow> 'w state \<Rightarrow> (js_error + 'p json) \<times> 'w state" where
  "listRepos P s =
     (let (repos, s') = ghCommand P (listRepos_args P) s
      in (Inr (or_empty repos), s'))"

definition searchIssues ::
  "('w, 'p, 'n::numeral) process \<Rightarrow> string \<Rightarrow> 'n option \<Rightarrow> 'w state
     \<Rightarrow> (js_error + 'p json) \<times> 'w state" where
  "searchIssues P query limit s =
     (let (issues, s') = ghCommand P (searchIssues_args P query limit) s
      in (Inr (or_empty issues), s'))"

definition searchPullRequests ::
  "('w, 'p, 'n::numeral) process \<Rightarrow> string \<Rightarrow> 'n option \<Rightarrow> 'w state
     \<Rightarrow> (js_error + 'p json) \<times> 'w state" where
  "searchPullRequests P query limit s =
     (let (prs, s') = ghCommand P (searchPullRequests_args P query limit) s
      in (Inr (or_empty prs), s'))"

definition searchCode ::
  "('w, 'p, 'n::numeral) process \<Rightarrow> string \<Rightarrow> 'n option \<Rightarrow> 'w state
     \<Rightarrow> (js_error + 'p json) \<times> 'w state" where
  "searchCode P query limit s =
     (let (code, s') = ghCommand P (searchCode_args P query limit) s
      in (Inr (or_empty code), s'))"

definition searchCommits ::
  "('w, 'p, 'n::numeral) process \<Rightarrow> string \<Rightarrow> 'n option \<Rightarrow> 'w state
     \<Rightarrow> (js_error + 'p json) \<times> 'w state" where
  "searchCommits P query limit s =
     (let (commits, s') = ghCommand P (searchCommits_args P query limit) s
      in (Inr (or_empty commits), s'))"

text \<open>
  Four values, one for each category, and the bundle that adds the summary to them.
  \<^verbatim>\<open>comprehensiveSearch\<close> builds a bundle of the four search results (values of
  \<open>'p json\<close>) with their \<^verbatim>\<open>length\<close> properties; the chat route builds one of four
  arrays with their lengths.
\<close>

record 'a results =
  issues :: 'a
  pullRequests :: 'a
  code :: 'a
  commits :: 'a

record 'n search_summary =
  issuesFound :: 'n
  prsFound :: 'n
  codeFilesFound :: 'n
  commitsFound :: 'n

record ('a, 'n) result_bundle = "'a results" +
  summary :: "'n search_summary"

type_synonym 'p search_bundle = "('p json, 'p json option) result_bundle"

text \<open>
  \<^verbatim>\<open>await Promise.all([...])\<close> on four promises that are settled when it is called: it
  fulfils with the four values, or rejects with the error of the first rejected one.
\<close>

fun promise_all4 ::
  "js_error + 'a \<Rightarrow> js_error + 'b \<Rightarrow> js_error + 'c \<Rightarrow> js_error + 'd
     \<Rightarrow> js_error + 'a \<times> 'b \<times> 'c \<times> 'd" where
  "promise_all4 (Inl e) _ _ _ = Inl e"
| "promise_all4 (Inr a) (Inl e) _ _ = Inl e"
| "promise_all4 (Inr a) (Inr b) (Inl e) _ = Inl e"
| "promise_all4 (Inr a) (Inr b) (Inr c) (Inl e) = Inl e"
| "promise_all4 (Inr a) (Inr b) (Inr c) (Inr d) = Inr (a, b, c, d)"

text \<open>
  The \<^verbatim>\<open>length\<close> property of a value other than \<^verbatim>\<open>null\<close>: the number of elements of
  an array, the number of characters of a string, the property of that name of an
  object if it has one, and \<^verbatim>\<open>undefined\<close> (\<open>None\<close>) otherwise. Reading it from
  \<^verbatim>\<open>null\<close> throws a \<^verbatim>\<open>TypeError\<close>.
\<close>

fun length_property :: "'p json \<Rightarrow> 'p json option" where
  "length_property (JArray xs) = Some (JNumber (of_nat (length xs)))"
| "length_property (JString s) = Some (JNumber (of_nat (length s)))"
| "length_property (JObject ps) = map_of ps ''length''"
| "length_property _ = None"

definition get_length :: "'p json \<Rightarrow> js_error + 'p json option" where
  "get_length v =
     (case v of
        JNull \<Rightarrow> Inl (TypeError ''Cannot read properties of null (reading 'length')'')
      | _ \<Rightarrow> Inr (length_property v))"

text \<open>
  \<^verbatim>\<open>comprehensiveSearch\<close>: the four searches are started in the order of the array
  literal (each runs \<^verbatim>\<open>execSync\<close> to its end when it is called), with the limits 10, 10,
  10 and 5; the summary fields are the \<^verbatim>\<open>length\<close> properties of the four results, read
  in the order of the object literal.
\<close>

definition comprehensiveSearch ::
  "('w, 'p, 'n::numeral) process \<Rightarrow> string \<Rightarrow> 'w state
     \<Rightarrow> (js_error + 'p search_bundle) \<times> 'w state" where
  "comprehensiveSearch P query s =
     (let (r1, s1) = searchIssues P query (Some 10) s;
          (r2, s2) = searchPullRequests P query (Some 10) s1;
          (r3, s3) = searchCode P query (Some 10) s2;
          (r4, s4) = searchCommits P query (Some 5) s3
      in case promise_all4 r1 r2 r3 r4 of
           Inl e \<Rightarrow> (Inl e, s4)
         | Inr (issues', prs', code', commits') \<Rightarrow>
             (case get_length issues' of Inl e \<Rightarrow> (Inl e, s4) | Inr n1 \<Rightarrow>
             (case get_length prs' of Inl e \<Rightarrow> (Inl e, s4) | Inr n2 \<Rightarrow>
             (case get_length code' of Inl e \<Rightarrow> (Inl e, s4) | Inr n3 \<Rightarrow>
             (case get_length commits' of Inl e \<Rightarrow> (Inl e, s4) | Inr n4 \<Rightarrow>
                (Inr \<lparr>issues = issues', pullRequests = prs', code = code',
                      commits = commits',
                      summary = \<lparr>issuesFound = n1, prsFound = n2, codeFilesFound = n3,
                                  commitsFound = n4\<rparr>\<rparr>, s4))))))"

text \<open>The exports of the module that the routes use, as \<^verbatim>\<open>github.listRepos\<close> etc.\<close>

record ('w, 'p) github_module =
  github_listRepos :: "'w state \<Rightarrow> (js_error + 'p json) \<times> 'w state"
  github_comprehensiveSearch ::
    "string \<Rightarrow> 'w state \<Rightarrow> (js_error + 'p search_bundle) \<times> 'w state"
  github_GITHUB_ORG :: string

definition github :: "('w, 'p, 'n::numeral) process \<Rightarrow> ('w, 'p) github_module" where
  "github P =
     \<lparr>github_listRepos = listRepos P,
      github_comprehensiveSearch = comprehensiveSearch P,
      github_GITHUB_ORG = GITHUB_ORG P\<rparr>"

section \<open>The language-model service (services/llm.js, not part of the sources)\<close>

text \<open>
  An element of the arrays that the chat route accumulates: a record of a search
  result with its properties (\<open>Inl\<close>), or a one-character string (\<open>Inr\<close>), which the
  spread of a string yields and which has no \<^verbatim>\<open>url\<close>.
\<close>

type_synonym 'p element = "('p + string) item"

type_synonym 'p chat_bundle = "('p element list, nat) result_bundle"

text \<open>
  The routes use two functions of the module, both \<^verbatim>\<open>async\<close>:
  \<^verbatim>\<open>extractSearchKeywords(apiKey, message)\<close> and
  \<^verbatim>\<open>generateResponse(apiKey, message, allResults, systemPrompt)\<close>. They are parameters
  of the model: any function of the arguments and of the outside world, which fulfils
  or rejects.
\<close>

record ('w, 'p) llm_module =
  llm_extractSearchKeywords :: "string \<Rightarrow> string \<Rightarrow> 'w \<Rightarrow> (js_error + string list) \<times> 'w"
  llm_generateResponse ::
    "string \<Rightarrow> string \<Rightarrow> 'p chat_bundle \<Rightarrow> string option \<Rightarrow> 'w \<Rightarrow> (js_error + string) \<times> 'w"

definition extractSearchKeywords ::
  "('w, 'p) llm_module \<Rightarrow> string \<Rightarrow> string \<Rightarrow> 'w state
     \<Rightarrow> (js_error + string list) \<times> 'w state" where
  "extractSearchKeywords llm apiKey message s =
     (let (r, w') = llm_extractSearchKeywords llm apiKey message (world s)
      in (r, \<lparr>world = w', calls = calls s @ [ExtractSearchKeywords apiKey message]\<rparr>))"

definition generateResponse ::
  "('w, 'p) llm_module \<Rightarrow> string \<Rightarrow> string \<Rightarrow> 'p chat_bundle \<Rightarrow> string option \<Rightarrow> 'w state
     \<Rightarrow> (js_error + string) \<times> 'w state" where
  "generateResponse llm apiKey message allResults systemPrompt s =
     (let (r, w') = llm_generateResponse llm apiKey message allResults systemPrompt (world s)
      in (r, \<lparr>world = w', calls = calls s @ [GenerateResponse apiKey message]\<rparr>))"

section \<open>The routes (routes/chat.js)\<close>

text \<open>
  A response: the HTTP status (200 when \<^verbatim>\<open>res.json\<close> is called without
  \<^verbatim>\<open>res.status\<close>) and the JSON body, one constructor for each shape the routes send.
  A route handler returns the response it sent, or \<open>None\<close> when it ended without
  sending one.
\<close>

datatype 'p res_json =
    ErrorJson string
  | ChatJson string "nat search_summary" "string list"
  | ReposJson "'p json" string
  | SearchJson "'p search_bundle"

record 'p response =
  status :: nat
  json :: "'p res_json"

text \<open>\<^verbatim>\<open>String.prototype.includes\<close>: the argument occurs as a contiguous substring.\<close>

definition str_includes :: "string \<Rightarrow> string \<Rightarrow> bool" where
  "str_includes str search = sublist search str"

text \<open>
  The test of the \<^verbatim>\<open>catch\<close> block of the chat route:
  \<^verbatim>\<open>error.message?.includes('401') || error.message?.includes('authentication')\<close>.
  Its value is \<open>None\<close> when it throws: reading \<^verbatim>\<open>message\<close> from \<^verbatim>\<open>null\<close> or
  \<^verbatim>\<open>undefined\<close> throws, and so may \<^verbatim>\<open>includes\<close> on a message that is not a string. With
  a missing message both sides are \<^verbatim>\<open>undefined\<close>, which is falsy. The second call is
  made only when the first one gave a falsy value.
\<close>

definition is_api_key_error :: "js_error \<Rightarrow> bool option" where
  "is_api_key_error e =
     (case thrown e of
        Nullish \<Rightarrow> None
      | Error NoMessage \<Rightarrow> Some False
      | Error (StringMessage m) \<Rightarrow>
          Some (str_includes m ''401'' \<or> str_includes m ''authentication'')
      | Error (OtherMessage includes_of) \<Rightarrow>
          (case includes_of ''401'' of
             None \<Rightarrow> None
           | Some True \<Rightarrow> Some True
           | Some False \<Rightarrow> includes_of ''authentication''))"

text \<open>
  The spread \<^verbatim>\<open>...x\<close> in the arguments of \<^verbatim>\<open>push\<close>: the elements of an array, the
  characters of a string, and a \<^verbatim>\<open>TypeError\<close> for a value that is not iterable.
\<close>

definition record_element :: "'p item \<Rightarrow> 'p element" where
  "record_element r = \<lparr>url = url r, props = Inl (props r)\<rparr>"

definition character_element :: "char \<Rightarrow> 'p element" where
  "character_element c = \<lparr>url = Undefined, props = Inr [c]\<rparr>"

fun spread :: "'p json \<Rightarrow> js_error + 'p element list" where
  "spread (JArray xs) = Inr (map record_element xs)"
| "spread (JString s) = Inr (map character_element s)"
| "spread _ =
     Inl (TypeError ''Spread syntax requires ...iterable[Symbol.iterator] to be a function'')"

text \<open>
  Step 2 of the chat route, the loop of lines 37-43: one \<^verbatim>\<open>comprehensiveSearch\<close> for
  each keyword, in order, its four results spread onto the accumulators; a rejected
  search or a failing spread leaves the loop with its error.
\<close>

fun search_keywords ::
  "('w, 'p) github_module \<Rightarrow> string list \<Rightarrow> 'p element list results \<Rightarrow> 'w state
     \<Rightarrow> (js_error + 'p element list results) \<times> 'w state" where
  "search_keywords g [] allResults s = (Inr allResults, s)"
| "search_keywords g (keyword # keywords) allResults s =
     (case github_comprehensiveSearch g keyword s of
        (Inl e, s') \<Rightarrow> (Inl e, s')
      | (Inr r, s') \<Rightarrow>
          (case spread (issues r) of Inl e \<Rightarrow> (Inl e, s') | Inr issues' \<Rightarrow>
          (case spread (pullRequests r) of Inl e \<Rightarrow> (Inl e, s') | Inr prs' \<Rightarrow>
          (case spread (code r) of Inl e \<Rightarrow> (Inl e, s') | Inr code' \<Rightarrow>
          (case spread (commits r) of Inl e \<Rightarrow> (Inl e, s') | Inr commits' \<Rightarrow>
             search_keywords g keywords
               \<lparr>issues = issues allResults @ issues',
                pullRequests = pullRequests allResults @ prs',
                code = code allResults @ code',
                commits = commits allResults @ commits'\<rparr> s')))))"

text \<open>
  Lines 30-56 (the multi-keyword orchestrator of the specification): empty
  accumulators, the loop, the deduplication of each list, the summary counts.
\<close>

definition orchestrate ::
  "('w, 'p) github_module \<Rightarrow> string list \<Rightarrow> 'w state
     \<Rightarrow> (js_error + 'p chat_bundle) \<times> 'w state" where
  "orchestrate g keywords s =
     (case search_keywords g keywords
             \<lparr>issues = [], pullRequests = [], code = [], commits = []\<rparr> s of
        (Inl e, s') \<Rightarrow> (Inl e, s')
      | (Inr allResults, s') \<Rightarrow>
          (let issues' = deduplicateByUrl (issues allResults);
               prs' = deduplicateByUrl (pullRequests allResults);
               code' = deduplicateByUrl (code allResults);
               commits' = deduplicateByUrl (commits allResults)
           in (Inr \<lparr>issues = issues', pullRequests = prs', code = code', commits = commits',
                     summary = \<lparr>issuesFound = length issues', prsFound = length prs',
                                 codeFilesFound = length code',
                                 commitsFound = length commits'\<rparr>\<rparr>,
               s')))"

text \<open>The \<^verbatim>\<open>try\<close> block of the chat route after the two checks of the body.\<close>

definition chat_try ::
  "('w, 'p) github_module \<Rightarrow> ('w, 'p) llm_module \<Rightarrow> string \<Rightarrow> string \<Rightarrow> string option
     \<Rightarrow> 'w state \<Rightarrow> (js_error + 'p response) \<times> 'w state" where
  "chat_try g llm msg key systemPrompt s =
     (case extractSearchKeywords llm key msg s of
        (Inl e, s1) \<Rightarrow> (Inl e, s1)
      | (Inr keywords, s1) \<Rightarrow>
          (case orchestrate g keywords s1 of
             (Inl e, s2) \<Rightarrow> (Inl e, s2)
           | (Inr allResults, s2) \<Rightarrow>
               (case generateResponse llm key msg allResults systemPrompt s2 of
                  (Inl e, s3) \<Rightarrow> (Inl e, s3)
                | (Inr response, s3) \<Rightarrow>
                    (Inr \<lparr>status = 200,
                          json = ChatJson response (summary allResults) keywords\<rparr>, s3))))"

text \<open>
  The \<^verbatim>\<open>catch\<close> block of the chat route. When its test throws, the handler ends
  without a response.
\<close>

definition chat_catch :: "js_error \<Rightarrow> 'p response option" where
  "chat_catch e =
     (case is_api_key_error e of
        None \<Rightarrow> None
      | Some True \<Rightarrow>
          Some \<lparr>status = 401,
                json = ErrorJson ''Invalid API key. Please check your Anthropic API key.''\<rparr>
      | Some False \<Rightarrow>
          Some \<lparr>status = 500,
                json = ErrorJson
                  ''An error occurred processing your request. Please try again.''\<rparr>)"

text \<open>
  The request bodies: each property is a string or absent. \<^verbatim>\<open>!x\<close> holds for an
  absent property and for the empty string; past that check the property is a string,
  which \<open>the\<close> reads.
\<close>

record chat_body =
  message :: "string option"
  apiKey :: "string option"
  systemPrompt :: "string option"

record search_body =
  query :: "string option"

fun truthy :: "string option \<Rightarrow> bool" where
  "truthy None = False"
| "truthy (Some v) = (v \<noteq> [])"

text \<open>\<^verbatim>\<open>router.post('/chat', ...)\<close>\<close>

definition post_chat ::
  "('w, 'p) github_module \<Rightarrow> ('w, 'p) llm_module \<Rightarrow> chat_body \<Rightarrow> 'w state
     \<Rightarrow> 'p response option \<times> 'w state" where
  "post_chat g llm body s =
     (if \<not> truthy (message body)
      then (Some \<lparr>status = 400, json = ErrorJson ''Message is required''\<rparr>, s)
      else if \<not> truthy (apiKey body)
      then (Some \<lparr>status = 400,
                  json = ErrorJson
                    ''API key is required. Please enter your Anthropic API key in settings.''\<rparr>,
            s)
      else (case chat_try g llm (the (message body)) (the (apiKey body)) (systemPrompt body) s of
              (Inl e, s') \<Rightarrow> (chat_catch e, s')
            | (Inr r, s') \<Rightarrow> (Some r, s')))"

text \<open>
  \<^verbatim>\<open>router.get('/repos', ...)\<close>. Its \<^verbatim>\<open>catch\<close> block, like that of the search route,
  does not read the error, so it always sends its response.
\<close>

definition get_repos ::
  "('w, 'p) github_module \<Rightarrow> 'w state \<Rightarrow> 'p response option \<times> 'w state" where
  "get_repos g s =
     (case github_listRepos g s of
        (Inl e, s') \<Rightarrow>
          (Some \<lparr>status = 500, json = ErrorJson ''Failed to list repositories''\<rparr>, s')
      | (Inr repos, s') \<Rightarrow>
          (Some \<lparr>status = 200, json = ReposJson repos (github_GITHUB_ORG g)\<rparr>, s'))"

text \<open>\<^verbatim>\<open>router.post('/search', ...)\<close>\<close>

definition post_search ::
  "('w, 'p) github_module \<Rightarrow> search_body \<Rightarrow> 'w state \<Rightarrow> 'p response option \<times> 'w state" where
  "post_search g body s =
     (if \<not> truthy (query body)
      then (Some \<lparr>status = 400, json = ErrorJson ''Query is required''\<rparr>, s)
      else (case github_comprehensiveSearch g (the (query body)) s of
              (Inl e, s') \<Rightarrow> (Some \<lparr>status = 500, json = ErrorJson ''Search failed''\<rparr>, s')
            | (Inr results, s') \<Rightarrow> (Some \<lparr>status = 200, json = SearchJson results\<rparr>, s')))"

section \<open>The deduplicator on a heap of arrays\<close>

text \<open>
  JavaScript arrays are mutable objects that are passed by reference. To say what
  \<^verbatim>\<open>deduplicateByUrl\<close> does to its argument, arrays live in a heap: the array at
  address \<open>a\<close> is \<open>h ! a\<close>, and a new array gets the next free address.
\<close>

type_synonym addr = nat

type_synonym 'p heap = "'p item list list"

definition new_array :: "'p heap \<Rightarrow> 'p heap \<times> addr" where
  "new_array h = (h @ [[]], length h)"

text \<open>
  The loop of \<^verbatim>\<open>Array.prototype.filter\<close> (ECMAScript 23.1.3.8): for \<open>k\<close> from 0 below
  the length read at the start, if the source array still has index \<open>k\<close>, read the
  element from the heap, call the callback, and append a selected element to the
  array at \<open>dst\<close>.
\<close>

function filter_loop ::
  "('s \<Rightarrow> 'p item \<Rightarrow> bool \<times> 's) \<Rightarrow> addr \<Rightarrow> addr \<Rightarrow> nat \<Rightarrow> nat \<Rightarrow> 'p heap \<Rightarrow> 's
     \<Rightarrow> 'p heap \<times> 's" where
  "filter_loop f src dst k len h s =
     (if k < len
      then (if k < length (h ! src)
            then (let kValue = h ! src ! k;
                      (selected, s') = f s kValue;
                      h' = (if selected then h[dst := h ! dst @ [kValue]] else h)
                  in filter_loop f src dst (Suc k) len h' s')
            else filter_loop f src dst (Suc k) len h s)
      else (h, s))"
  by pat_completeness auto
termination
  by (relation "measure (\<lambda>(f, src, dst, k, len, h, s). len - k)") auto

declare filter_loop.simps [simp del]

definition heap_filter ::
  "('s \<Rightarrow> 'p item \<Rightarrow> bool \<times> 's) \<Rightarrow> addr \<Rightarrow> 'p heap \<Rightarrow> 's \<Rightarrow> 'p heap \<times> addr \<times> 's" where
  "heap_filter f src h s =
     (let len = length (h ! src);
          (h1, dst) = new_array h;
          (h2, s') = filter_loop f src dst 0 len h1 s
      in (h2, dst, s'))"

text \<open>
  \<^verbatim>\<open>deduplicateByUrl\<close> on the heap: \<open>items\<close> is the address of the argument, the
  result is the address of the array that \<^verbatim>\<open>filter\<close> built. The \<^verbatim>\<open>seen\<close> set is local
  to the call.
\<close>

definition deduplicateByUrl_heap :: "'p heap \<Rightarrow> addr \<Rightarrow> 'p heap \<times> addr" where
  "deduplicateByUrl_heap h items =
     (let (h', result, seen) = heap_filter dedup_callback items h {} in (h', result))"


section \<open>Failure of a command, and processes to run the model on\<close>

text \<open>The values that a spread accepts: arrays and strings.\<close>

fun iterable :: "'p json \<Rightarrow> bool" where
  "iterable (JArray xs) = True"
| "iterable (JString t) = True"
| "iterable _ = False"

text \<open>
  The \<^verbatim>\<open>gh\<close> invocation with the arguments \<open>args\<close> fails in the world \<open>w\<close>:
  \<^verbatim>\<open>execSync\<close> throws (the process could not be run, or it exited with a non-zero
  status), or \<^verbatim>\<open>JSON.parse\<close> throws on what the command printed.
\<close>

definition gh_fails :: "('w, 'p, 'n) process \<Rightarrow> string \<Rightarrow> 'w \<Rightarrow> bool" where
  "gh_fails P args w =
     (case execSync P (''gh '' @ args) w of
        (Inl e, w') \<Rightarrow> True
      | (Inr out, w') \<Rightarrow> isl (JSON_parse P out))"

text \<open>
  The decimal digits of a natural number: how the processes below, whose numbers are
  natural numbers, print them.
\<close>

fun show_nat :: "nat \<Rightarrow> string" where
  "show_nat n =
     (if n < 10 then [char_of (48 + n)]
      else show_nat (n div 10) @ [char_of (48 + n mod 10)])"

declare show_nat.simps [simp del]

text \<open>
  An initial state with no call made yet; a \<^verbatim>\<open>gh\<close> that always exits with an error;
  a \<^verbatim>\<open>gh\<close> whose output is not JSON; a \<^verbatim>\<open>gh\<close> whose output parses to the same value for
  every command; a language-model service with fixed outcomes; a GitHub module whose
  two functions reject.
\<close>

definition s0 :: "unit state" where
  "s0 = \<lparr>world = (), calls = []\<rparr>"

definition failing_gh :: "(unit, unit, nat) process" where
  "failing_gh =
     \<lparr>env_GITHUB_ORG = None,
      execSync = (\<lambda>cmd w. (Inl (Rejection OtherCause (Error (StringMessage ''Command failed: gh''))), w)),
      JSON_parse = (\<lambda>out. Inr JNull),
      Number_toString = show_nat\<rparr>"

definition garbled_gh :: "(unit, unit, nat) process" where
  "garbled_gh =
     \<lparr>env_GITHUB_ORG = Some ''acme'',
      execSync = (\<lambda>cmd w. (Inr ''<html>'', w)),
      JSON_parse =
        (\<lambda>out. Inl (Rejection OtherCause
                       (Error (StringMessage ''Unexpected token < in JSON at position 0'')))),
      Number_toString = show_nat\<rparr>"

definition parsed_gh :: "unit json \<Rightarrow> (unit, unit, nat) process" where
  "parsed_gh v =
     \<lparr>env_GITHUB_ORG = None,
      execSync = (\<lambda>cmd w. (Inr ''output'', w)),
      JSON_parse = (\<lambda>out. Inr v),
      Number_toString = show_nat\<rparr>"

definition stub_gh :: "unit item list \<Rightarrow> (unit, unit, nat) process" where
  "stub_gh fixtures = parsed_gh (JArray fixtures)"

definition stub_llm ::
  "js_error + string list \<Rightarrow> js_error + string \<Rightarrow> (unit, unit) llm_module" where
  "stub_llm keywords answer =
     \<lparr>llm_extractSearchKeywords = (\<lambda>apiKey message w. (keywords, w)),
      llm_generateResponse = (\<lambda>apiKey message allResults systemPrompt w. (answer, w))\<rparr>"

definition rejecting_github :: "(unit, unit) github_module" where
  "rejecting_github =
     \<lparr>github_listRepos =
        (\<lambda>s. (Inl (Rejection OtherCause (Error (StringMessage ''spawnSync gh ENOENT''))), s)),
      github_comprehensiveSearch =
        (\<lambda>query s. (Inl (Rejection OtherCause (Error (StringMessage ''spawnSync gh ENOENT''))), s)),
      github_GITHUB_ORG = ''brandnewbox''\<rparr>"

section \<open>Properties of the deduplicator\<close>

text \<open>The filter with the \<^verbatim>\<open>seen\<close> set, as a plain recursion on the input.\<close>

fun keep_unseen :: "url_key set \<Rightarrow> 'p item list \<Rightarrow> 'p item list" where
  "keep_unseen seen [] = []"
| "keep_unseen seen (x # xs) =
     (if url x \<in> seen then keep_unseen seen xs else x # keep_unseen (insert (url x) seen) xs)"

lemma array_filter_dedup:
  "array_filter dedup_callback xs seen = (keep_unseen seen xs, seen \<union> url ` set xs)"
  by (induction xs arbitrary: seen) (auto simp: dedup_callback_def)

lemma deduplicateByUrl_keep_unseen: "deduplicateByUrl xs = keep_unseen {} xs"
  by (simp add: deduplicateByUrl_def array_filter_dedup)

lemma deduplicateByUrl_simps:
  "deduplicateByUrl [] = []"
  "deduplicateByUrl (x # xs) = x # keep_unseen {url x} xs"
  by (simp_all add: deduplicateByUrl_keep_unseen)

lemma url_keep_unseen: "url ` set (keep_unseen seen xs) = url ` set xs - seen"
  by (induction xs arbitrary: seen) auto

lemma distinct_keep_unseen: "distinct (map url (keep_unseen seen xs))"
  by (induction xs arbitrary: seen) (auto simp: url_keep_unseen)

lemma keep_unseen_distinct_id:
  "distinct (map url xs) \<Longrightarrow> url ` set xs \<inter> seen = {} \<Longrightarrow> keep_unseen seen xs = xs"
  by (induction xs arbitrary: seen) auto

lemma keep_unseen_index:
  "keep_unseen seen xs =
     map (\<lambda>i. xs ! i)
       (filter (\<lambda>i. url (xs ! i) \<notin> seen \<and> first_occurrence xs i) [0..<length xs])"
proof (induction xs arbitrary: seen)
  case Nil
  show ?case by simp
next
  case (Cons x xs)
  have fo_Suc: "first_occurrence (x # xs) (Suc i) \<longleftrightarrow> url x \<noteq> url (xs ! i) \<and> first_occurrence xs i"
    for i
    by (simp add: first_occurrence_def All_less_Suc2)
  have fo_0: "first_occurrence (x # xs) 0"
    by (simp add: first_occurrence_def)
  have upt: "[0..<Suc (length xs)] = 0 # map Suc [0..<length xs]"
    by (simp add: upt_conv_Cons map_Suc_upt del: upt_Suc)
  show ?case
  proof (cases "url x \<in> seen")
    case True
    have "(url (xs ! i) \<notin> seen \<and> url x \<noteq> url (xs ! i) \<and> first_occurrence xs i)
          = (url (xs ! i) \<notin> seen \<and> first_occurrence xs i)" for i
      using True by auto
    with True show ?thesis
      by (simp add: upt filter_map o_def fo_Suc Cons.IH del: upt_Suc)
  next
    case False
    have "(url (xs ! i) \<notin> seen \<and> url x \<noteq> url (xs ! i) \<and> first_occurrence xs i)
          = (url (xs ! i) \<notin> insert (url x) seen \<and> first_occurrence xs i)" for i
      by auto
    with False show ?thesis
      by (simp add: upt filter_map o_def fo_Suc fo_0 Cons.IH del: upt_Suc)
  qed
qed

lemma example_deduplicated: "deduplicateByUrl example_input = example_output"
  by (simp add: deduplicateByUrl_keep_unseen example_input_def example_output_def rec_url_def)

lemma distinct_deduplicateByUrl: "distinct (map url (deduplicateByUrl xs))"
  by (simp add: deduplicateByUrl_keep_unseen distinct_keep_unseen)

lemma deduplicateByUrl_distinct_id: "distinct (map url xs) \<Longrightarrow> deduplicateByUrl xs = xs"
  by (simp add: deduplicateByUrl_keep_unseen keep_unseen_distinct_id)

lemma deduplicateByUrl_id_iff: "deduplicateByUrl xs = xs \<longleftrightarrow> distinct (map url xs)"
  by (metis distinct_deduplicateByUrl deduplicateByUrl_distinct_id)

text \<open>
  C1: for every sequence of records, \<^verbatim>\<open>deduplicateByUrl\<close> returns the subsequence of
  the records that are the first occurrence of their \<^verbatim>\<open>url\<close> key, in the original
  order (a record without \<^verbatim>\<open>url\<close> carries the key \<^verbatim>\<open>undefined\<close>, shared by all such
  records); the example of the specification yields its stated output.
\<close>

theorem deduplicateByUrl_first_occurrences:
  "deduplicateByUrl xs = first_occurrences xs
   \<and> deduplicateByUrl example_input = example_output"
proof
  show "deduplicateByUrl xs = first_occurrences xs"
    by (simp add: deduplicateByUrl_keep_unseen keep_unseen_index first_occurrences_def)
  show "deduplicateByUrl example_input = example_output"
    by (rule example_deduplicated)
qed

text \<open>
  On records without \<^verbatim>\<open>url\<close> and one whose \<^verbatim>\<open>url\<close> is the string \<^verbatim>\<open>"undefined"\<close>:
  the first record without \<^verbatim>\<open>url\<close> is kept and the later one dropped, the string is
  another key.
\<close>

theorem deduplicateByUrl_first_occurrences_witness:
  "first_occurrences
     [\<lparr>url = Undefined, props = (1::nat)\<rparr>, \<lparr>url = Url ''undefined'', props = 2\<rparr>,
      \<lparr>url = Undefined, props = 3\<rparr>]
   = [\<lparr>url = Undefined, props = 1\<rparr>, \<lparr>url = Url ''undefined'', props = 2\<rparr>]
   \<and> first_occurrences example_input = example_output"
  using deduplicateByUrl_first_occurrences
          [of "[\<lparr>url = Undefined, props = (1::nat)\<rparr>, \<lparr>url = Url ''undefined'', props = 2\<rparr>,
                \<lparr>url = Undefined, props = 3\<rparr>]"]
        deduplicateByUrl_first_occurrences [of example_input]
  by (simp add: deduplicateByUrl_keep_unseen)

text \<open>
  C3: the deduplicator is idempotent: applied to its own output it returns that
  output unchanged.
\<close>

theorem deduplicateByUrl_idempotent:
  "deduplicateByUrl (deduplicateByUrl xs) = deduplicateByUrl xs"
  by (rule deduplicateByUrl_distinct_id) (rule distinct_deduplicateByUrl)

section \<open>The deduplicator does not change its argument\<close>

lemma filter_loop_array_filter:
  "src \<noteq> dst \<Longrightarrow> src < length h \<Longrightarrow> dst < length h \<Longrightarrow> len = length (h ! src) \<Longrightarrow> k \<le> len \<Longrightarrow>
   filter_loop f src dst k len h s =
     (h[dst := h ! dst @ fst (array_filter f (drop k (h ! src)) s)],
      snd (array_filter f (drop k (h ! src)) s))"
proof (induction f src dst k len h s rule: filter_loop.induct)
  case (1 f src dst k len h s)
  show ?case
  proof (cases "k < len")
    case False
    have "filter_loop f src dst k len h s = (h, s)"
      using False by (subst filter_loop.simps) simp
    with False "1.prems" show ?thesis by simp
  next
    case True
    with "1.prems" have d: "drop k (h ! src) = h ! src ! k # drop (Suc k) (h ! src)"
      by (simp add: Cons_nth_drop_Suc)
    obtain sel s' where fs: "f s (h ! src ! k) = (sel, s')" by (cases "f s (h ! src ! k)")
    define h' where "h' = (if sel then h[dst := h ! dst @ [h ! src ! k]] else h)"
    have src': "h' ! src = h ! src" and len': "length h' = length h"
      using "1.prems" by (auto simp: h'_def)
    have kl: "k < length (h ! src)"
      using True "1.prems" by simp
    have IH: "filter_loop f src dst (Suc k) len h' s' =
      (h'[dst := h' ! dst @ fst (array_filter f (drop (Suc k) (h' ! src)) s')],
       snd (array_filter f (drop (Suc k) (h' ! src)) s'))"
      by (rule "1.IH"(1) [OF True kl refl refl fs [symmetric] h'_def])
        (use True "1.prems" src' len' in simp_all)
    have step: "filter_loop f src dst k len h s = filter_loop f src dst (Suc k) len h' s'"
      using True kl fs by (subst filter_loop.simps) (simp add: h'_def)
    obtain ys s'' where rest: "array_filter f (drop (Suc k) (h ! src)) s' = (ys, s'')"
      by (cases "array_filter f (drop (Suc k) (h ! src)) s'")
    have whole: "array_filter f (drop k (h ! src)) s = (if sel then h ! src ! k # ys else ys, s'')"
      by (simp add: d fs rest)
    have upd: "h'[dst := h' ! dst @ ys] = h[dst := h ! dst @ (if sel then h ! src ! k # ys else ys)]"
      using "1.prems" by (simp add: h'_def)
    show ?thesis
      by (simp add: step IH src' rest whole upd)
  qed
qed

lemma heap_filter_array_filter:
  assumes "src < length h"
  shows "heap_filter f src h s =
           (h @ [fst (array_filter f (h ! src) s)], length h, snd (array_filter f (h ! src) s))"
proof -
  have "filter_loop f src (length h) 0 (length (h ! src)) (h @ [[]]) s =
          ((h @ [[]])[length h := (h @ [[]]) ! length h @ fst (array_filter f (drop 0 ((h @ [[]]) ! src)) s)],
           snd (array_filter f (drop 0 ((h @ [[]]) ! src)) s))"
    by (rule filter_loop_array_filter) (use assms in \<open>simp_all add: nth_append\<close>)
  with assms show ?thesis
    by (simp add: heap_filter_def new_array_def nth_append)
qed

lemma deduplicateByUrl_heap_eq:
  "items < length h \<Longrightarrow>
   deduplicateByUrl_heap h items = (h @ [deduplicateByUrl (h ! items)], length h)"
  by (simp add: deduplicateByUrl_heap_def heap_filter_array_filter deduplicateByUrl_def)

text \<open>The heap model run on the example of the specification.\<close>

lemma heap_example:
  "deduplicateByUrl_heap [example_input] 0 = ([example_input, example_output], 1)"
  by code_simp

text \<open>
  C10: \<^verbatim>\<open>deduplicateByUrl\<close> does not mutate its argument. Called on the array at
  address \<open>items\<close> of a heap, it returns the address of a new array (not an address of
  the heap before the call, so not \<open>items\<close>), every array of the heap before the call
  (the argument among them) holds the same records in the same order after it, and the
  new array holds the deduplicated records.
\<close>

theorem deduplicateByUrl_keeps_argument:
  assumes "items < length h"
  shows "case deduplicateByUrl_heap h items of
           (h', result) \<Rightarrow>
             result \<noteq> items \<and> \<not> result < length h
             \<and> h' ! items = h ! items
             \<and> (\<forall>a<length h. h' ! a = h ! a)
             \<and> h' ! result = deduplicateByUrl (h ! items)"
  using assms by (simp add: deduplicateByUrl_heap_eq nth_append)

theorem deduplicateByUrl_keeps_argument_witness:
  "(0::nat) < length [example_input]
   \<and> (case deduplicateByUrl_heap [example_input] 0 of
         (h', result) \<Rightarrow>
           result \<noteq> 0 \<and> h' ! 0 = example_input \<and> h' ! result = example_output)"
  using deduplicateByUrl_keeps_argument [of 0 "[example_input]"]
  by (simp add: example_deduplicated split: prod.splits)

section \<open>The search client\<close>

lemma ghCommand_fails:
  "gh_fails P args (world s) \<Longrightarrow> fst (ghCommand P args s) = JNull"
  by (auto simp: gh_fails_def ghCommand_def ghCommand_try_def Let_def isl_def
           split: prod.splits sum.splits)

lemma ghCommand_parsed:
  "execSync P (''gh '' @ args) (world s) = (Inr out, w') \<Longrightarrow> JSON_parse P out = Inr v
   \<Longrightarrow> fst (ghCommand P args s) = v"
  by (simp add: ghCommand_def ghCommand_try_def Let_def)

lemma or_empty_simps:
  "or_empty JNull = JArray []"
  "or_empty (JArray xs) = JArray xs"
  "or_empty (JObject ps) = JObject ps"
  by (simp_all add: or_empty_def)

lemma or_empty_not_null: "or_empty v \<noteq> JNull"
  by (cases v) (simp_all add: or_empty_def)

lemma searchIssues_result:
  "searchIssues P q l s =
     (Inr (or_empty (fst (ghCommand P (searchIssues_args P q l) s))),
      snd (ghCommand P (searchIssues_args P q l) s))"
  by (simp add: searchIssues_def split: prod.splits)

lemma searchPullRequests_result:
  "searchPullRequests P q l s =
     (Inr (or_empty (fst (ghCommand P (searchPullRequests_args P q l) s))),
      snd (ghCommand P (searchPullRequests_args P q l) s))"
  by (simp add: searchPullRequests_def split: prod.splits)

lemma searchCode_result:
  "searchCode P q l s =
     (Inr (or_empty (fst (ghCommand P (searchCode_args P q l) s))),
      snd (ghCommand P (searchCode_args P q l) s))"
  by (simp add: searchCode_def split: prod.splits)

lemma searchCommits_result:
  "searchCommits P q l s =
     (Inr (or_empty (fst (ghCommand P (searchCommits_args P q l) s))),
      snd (ghCommand P (searchCommits_args P q l) s))"
  by (simp add: searchCommits_def split: prod.splits)

lemma listRepos_result:
  "listRepos P s =
     (Inr (or_empty (fst (ghCommand P (listRepos_args P) s))),
      snd (ghCommand P (listRepos_args P) s))"
  by (simp add: listRepos_def split: prod.splits)

lemma failing_gh_fails: "gh_fails failing_gh args w"
  by (simp add: gh_fails_def failing_gh_def)

lemma garbled_gh_fails: "gh_fails garbled_gh args w"
  by (simp add: gh_fails_def garbled_gh_def)

lemma parsed_gh_ghCommand: "fst (ghCommand (parsed_gh v) args s) = v"
  by (simp add: ghCommand_def ghCommand_try_def parsed_gh_def Let_def)

lemma parsed_gh_not_fails: "\<not> gh_fails (parsed_gh v) args w"
  by (simp add: gh_fails_def parsed_gh_def)

lemma parsed_gh_searches:
  "fst (searchIssues (parsed_gh v) q l s) = Inr (or_empty v)"
  "fst (searchPullRequests (parsed_gh v) q l s) = Inr (or_empty v)"
  "fst (searchCode (parsed_gh v) q l s) = Inr (or_empty v)"
  "fst (searchCommits (parsed_gh v) q l s) = Inr (or_empty v)"
  by (simp_all add: searchIssues_result searchPullRequests_result searchCode_result
        searchCommits_result parsed_gh_ghCommand)

text \<open>
  C4, as amended: for every query and limit, each of the four category searches
  fulfils its promise (it never raises to its caller). When the \<^verbatim>\<open>gh\<close> invocation it
  makes fails by a process error, a non-zero exit or output that does not parse, its
  result is the empty sequence; so it is when the output parses to a falsy value
  (\<^verbatim>\<open>null\<close>, \<^verbatim>\<open>false\<close>, \<^verbatim>\<open>0\<close>, the empty string). Output that parses to any other
  value, an array or not, is returned as it is.
\<close>

theorem search_client_fail_soft:
  "(\<exists>v s'. searchIssues P q l s = (Inr v, s'))
   \<and> (\<exists>v s'. searchPullRequests P q l s = (Inr v, s'))
   \<and> (\<exists>v s'. searchCode P q l s = (Inr v, s'))
   \<and> (\<exists>v s'. searchCommits P q l s = (Inr v, s'))
   \<and> (gh_fails P (searchIssues_args P q l) (world s)
        \<longrightarrow> fst (searchIssues P q l s) = Inr (JArray []))
   \<and> (gh_fails P (searchPullRequests_args P q l) (world s)
        \<longrightarrow> fst (searchPullRequests P q l s) = Inr (JArray []))
   \<and> (gh_fails P (searchCode_args P q l) (world s)
        \<longrightarrow> fst (searchCode P q l s) = Inr (JArray []))
   \<and> (gh_fails P (searchCommits_args P q l) (world s)
        \<longrightarrow> fst (searchCommits P q l s) = Inr (JArray []))
   \<and> (execSync P (''gh '' @ searchIssues_args P q l) (world s) = (Inr out, w')
        \<and> JSON_parse P out = Inr v
        \<longrightarrow> fst (searchIssues P q l s) = Inr (if json_truthy v then v else JArray []))
   \<and> (execSync P (''gh '' @ searchPullRequests_args P q l) (world s) = (Inr out, w')
        \<and> JSON_parse P out = Inr v
        \<longrightarrow> fst (searchPullRequests P q l s) = Inr (if json_truthy v then v else JArray []))
   \<and> (execSync P (''gh '' @ searchCode_args P q l) (world s) = (Inr out, w')
        \<and> JSON_parse P out = Inr v
        \<longrightarrow> fst (searchCode P q l s) = Inr (if json_truthy v then v else JArray []))
   \<and> (execSync P (''gh '' @ searchCommits_args P q l) (world s) = (Inr out, w')
        \<and> JSON_parse P out = Inr v
        \<longrightarrow> fst (searchCommits P q l s) = Inr (if json_truthy v then v else JArray []))"
  by (simp add: searchIssues_result searchPullRequests_result searchCode_result
        searchCommits_result ghCommand_fails ghCommand_parsed or_empty_def)

theorem search_client_fail_soft_witness:
  "gh_fails failing_gh (searchIssues_args failing_gh ''memory leak'' None) (world s0)
   \<and> fst (searchIssues failing_gh ''memory leak'' None s0) = Inr (JArray [])
   \<and> gh_fails garbled_gh (searchCode_args garbled_gh ''memory leak'' (Some 10)) (world s0)
   \<and> fst (searchCode garbled_gh ''memory leak'' (Some 10) s0) = Inr (JArray [])
   \<and> execSync (parsed_gh (JBool False))
        (''gh '' @ searchCommits_args (parsed_gh (JBool False)) ''memory leak'' (Some 5))
        (world s0) = (Inr ''output'', ())
   \<and> JSON_parse (parsed_gh (JBool False)) ''output'' = Inr (JBool False)
   \<and> fst (searchCommits (parsed_gh (JBool False)) ''memory leak'' (Some 5) s0) = Inr (JArray [])
   \<and> fst (searchPullRequests (parsed_gh (JArray [rec_url ''a''])) ''memory leak'' None s0)
       = Inr (JArray [rec_url ''a''])"
proof -
  define F where "F = parsed_gh (JBool False)"
  define A where "A = parsed_gh (JArray [rec_url ''a''])"
  have f1: "execSync F (''gh '' @ searchCommits_args F ''memory leak'' (Some 5)) (world s0)
              = (Inr ''output'', ())"
    and f2: "JSON_parse F ''output'' = Inr (JBool False)"
    by (simp_all add: F_def parsed_gh_def)
  have a1: "execSync A (''gh '' @ searchPullRequests_args A ''memory leak'' None) (world s0)
              = (Inr ''output'', ())"
    and a2: "JSON_parse A ''output'' = Inr (JArray [rec_url ''a''])"
    by (simp_all add: A_def parsed_gh_def)
  from search_client_fail_soft [of failing_gh "''memory leak''" None s0 "''output''" "()" JNull]
       search_client_fail_soft [of garbled_gh "''memory leak''" "Some 10" s0 "''output''" "()" JNull]
       search_client_fail_soft [of F "''memory leak''" "Some 5" s0 "''output''" "()" "JBool False"]
       search_client_fail_soft [of A "''memory leak''" None s0 "''output''" "()"
                                   "JArray [rec_url ''a'']"]
       failing_gh_fails garbled_gh_fails f1 f2 a1 a2
  show ?thesis
    unfolding F_def A_def by simp
qed

text \<open>
  C4, as stated, fails: when \<^verbatim>\<open>gh\<close> answers with a response that is not the array of
  records (here an object with an error message), \<^verbatim>\<open>searchIssues\<close> returns that object
  and not the empty sequence.
\<close>

theorem search_client_malformed_counterexample:
  "fst (searchIssues (parsed_gh (JObject [(''message'', JString ''Not Found'')]))
          ''memory leak'' None s0)
     = Inr (JObject [(''message'', JString ''Not Found'')])
   \<and> fst (searchIssues (parsed_gh (JObject [(''message'', JString ''Not Found'')]))
          ''memory leak'' None s0)
     \<noteq> Inr (JArray [])"
  by (simp add: parsed_gh_searches or_empty_def)


section \<open>The aggregator and the search route\<close>

lemma stub_gh_searches:
  "fst (searchIssues (stub_gh fixtures) q l s) = Inr (JArray fixtures)"
  "fst (searchPullRequests (stub_gh fixtures) q l s) = Inr (JArray fixtures)"
  "fst (searchCode (stub_gh fixtures) q l s) = Inr (JArray fixtures)"
  "fst (searchCommits (stub_gh fixtures) q l s) = Inr (JArray fixtures)"
  by (simp_all add: stub_gh_def parsed_gh_searches or_empty_def)

lemma search_result_not_null:
  "searchIssues P q l s = (Inr v, s') \<Longrightarrow> v \<noteq> JNull"
  "searchPullRequests P q l s = (Inr v, s') \<Longrightarrow> v \<noteq> JNull"
  "searchCode P q l s = (Inr v, s') \<Longrightarrow> v \<noteq> JNull"
  "searchCommits P q l s = (Inr v, s') \<Longrightarrow> v \<noteq> JNull"
  using or_empty_not_null
  by (auto simp: searchIssues_result searchPullRequests_result searchCode_result
        searchCommits_result)

lemma get_length_not_null: "v \<noteq> JNull \<Longrightarrow> get_length v = Inr (length_property v)"
  by (cases v) (simp_all add: get_length_def)

lemma comprehensiveSearch_result:
  assumes "searchIssues P q (Some 10) s = (Inr v1, s1)"
    and "searchPullRequests P q (Some 10) s1 = (Inr v2, s2)"
    and "searchCode P q (Some 10) s2 = (Inr v3, s3)"
    and "searchCommits P q (Some 5) s3 = (Inr v4, s4)"
  shows "comprehensiveSearch P q s =
           (Inr \<lparr>issues = v1, pullRequests = v2, code = v3, commits = v4,
                 summary = \<lparr>issuesFound = length_property v1, prsFound = length_property v2,
                             codeFilesFound = length_property v3,
                             commitsFound = length_property v4\<rparr>\<rparr>, s4)"
  using assms search_result_not_null(1) [OF assms(1)] search_result_not_null(2) [OF assms(2)]
    search_result_not_null(3) [OF assms(3)] search_result_not_null(4) [OF assms(4)]
  by (simp add: comprehensiveSearch_def get_length_not_null)

lemma comprehensiveSearch_fulfils: "\<exists>b s'. comprehensiveSearch P q s = (Inr b, s')"
  by (subst comprehensiveSearch_result
        [OF searchIssues_result searchPullRequests_result searchCode_result
            searchCommits_result]) blast

lemma stub_gh_comprehensiveSearch:
  "fst (comprehensiveSearch (stub_gh fixtures) q s) =
     Inr \<lparr>issues = JArray fixtures, pullRequests = JArray fixtures, code = JArray fixtures,
          commits = JArray fixtures,
          summary = \<lparr>issuesFound = Some (JNumber (of_nat (length fixtures))),
                      prsFound = Some (JNumber (of_nat (length fixtures))),
                      codeFilesFound = Some (JNumber (of_nat (length fixtures))),
                      commitsFound = Some (JNumber (of_nat (length fixtures)))\<rparr>\<rparr>"
proof -
  define P where "P = stub_gh fixtures"
  obtain s1 where r1: "searchIssues P q (Some 10) s = (Inr (JArray fixtures), s1)"
    using stub_gh_searches(1) [of fixtures q "Some 10" s]
    by (cases "searchIssues P q (Some 10) s") (simp add: P_def)
  obtain s2 where r2: "searchPullRequests P q (Some 10) s1 = (Inr (JArray fixtures), s2)"
    using stub_gh_searches(2) [of fixtures q "Some 10" s1]
    by (cases "searchPullRequests P q (Some 10) s1") (simp add: P_def)
  obtain s3 where r3: "searchCode P q (Some 10) s2 = (Inr (JArray fixtures), s3)"
    using stub_gh_searches(3) [of fixtures q "Some 10" s2]
    by (cases "searchCode P q (Some 10) s2") (simp add: P_def)
  obtain s4 where r4: "searchCommits P q (Some 5) s3 = (Inr (JArray fixtures), s4)"
    using stub_gh_searches(4) [of fixtures q "Some 5" s3]
    by (cases "searchCommits P q (Some 5) s3") (simp add: P_def)
  from comprehensiveSearch_result [OF r1 r2 r3 r4] show ?thesis
    by (simp add: P_def)
qed

text \<open>
  C5, as amended: for every request body with a present (non-empty) \<^verbatim>\<open>query\<close>,
  \<^verbatim>\<open>POST /api/search\<close> responds 200 with a body whose four category lists are the
  Search Client's results for that query as they were returned, without deduplication,
  and whose summary fields are the \<^verbatim>\<open>length\<close> properties of those results, for an
  array the number of its records; a returned array is its own deduplicated version
  exactly when no two of its records share a \<^verbatim>\<open>url\<close>.
\<close>

theorem post_search_returns_search_results:
  assumes "q \<noteq> []"
    and "searchIssues P q (Some 10) s = (Inr v1, s1)"
    and "searchPullRequests P q (Some 10) s1 = (Inr v2, s2)"
    and "searchCode P q (Some 10) s2 = (Inr v3, s3)"
    and "searchCommits P q (Some 5) s3 = (Inr v4, s4)"
  shows "post_search (github P) \<lparr>query = Some q\<rparr> s =
           (Some \<lparr>status = 200,
                  json = SearchJson
                    \<lparr>issues = v1, pullRequests = v2, code = v3, commits = v4,
                     summary = \<lparr>issuesFound = length_property v1,
                                 prsFound = length_property v2,
                                 codeFilesFound = length_property v3,
                                 commitsFound = length_property v4\<rparr>\<rparr>\<rparr>, s4)
         \<and> (\<forall>xs. v1 = JArray xs \<longrightarrow>
               length_property v1 = Some (JNumber (of_nat (length xs)))
               \<and> (deduplicateByUrl xs = xs \<longleftrightarrow> distinct (map url xs)))
         \<and> (\<forall>xs. v2 = JArray xs \<longrightarrow>
               length_property v2 = Some (JNumber (of_nat (length xs)))
               \<and> (deduplicateByUrl xs = xs \<longleftrightarrow> distinct (map url xs)))
         \<and> (\<forall>xs. v3 = JArray xs \<longrightarrow>
               length_property v3 = Some (JNumber (of_nat (length xs)))
               \<and> (deduplicateByUrl xs = xs \<longleftrightarrow> distinct (map url xs)))
         \<and> (\<forall>xs. v4 = JArray xs \<longrightarrow>
               length_property v4 = Some (JNumber (of_nat (length xs)))
               \<and> (deduplicateByUrl xs = xs \<longleftrightarrow> distinct (map url xs)))"
  using assms(1) comprehensiveSearch_result [OF assms(2-5)]
  by (simp add: post_search_def github_def deduplicateByUrl_id_iff)

theorem post_search_returns_search_results_witness:
  "''memory leak'' \<noteq> []
   \<and> fst (searchIssues (stub_gh [rec_url ''a'', rec_url ''a'']) ''memory leak'' (Some 10) s0)
       = Inr (JArray [rec_url ''a'', rec_url ''a''])
   \<and> fst (post_search (github (stub_gh [rec_url ''a'', rec_url ''a'']))
            \<lparr>query = Some ''memory leak''\<rparr> s0)
       = Some \<lparr>status = 200,
               json = SearchJson
                 \<lparr>issues = JArray [rec_url ''a'', rec_url ''a''],
                  pullRequests = JArray [rec_url ''a'', rec_url ''a''],
                  code = JArray [rec_url ''a'', rec_url ''a''],
                  commits = JArray [rec_url ''a'', rec_url ''a''],
                  summary = \<lparr>issuesFound = Some (JNumber 2), prsFound = Some (JNumber 2),
                              codeFilesFound = Some (JNumber 2),
                              commitsFound = Some (JNumber 2)\<rparr>\<rparr>\<rparr>
   \<and> deduplicateByUrl [rec_url ''a'', rec_url ''a''] \<noteq> [rec_url ''a'', rec_url ''a'']
   \<and> \<not> distinct (map url [rec_url ''a'', rec_url ''a''])"
proof -
  define P where "P = stub_gh [rec_url ''a'', rec_url ''a'']"
  define s1 where "s1 = snd (searchIssues P ''memory leak'' (Some 10) s0)"
  define s2 where "s2 = snd (searchPullRequests P ''memory leak'' (Some 10) s1)"
  define s3 where "s3 = snd (searchCode P ''memory leak'' (Some 10) s2)"
  define s4 where "s4 = snd (searchCommits P ''memory leak'' (Some 5) s3)"
  have ne: "''memory leak'' \<noteq> []" by simp
  have r1: "searchIssues P ''memory leak'' (Some 10) s0
              = (Inr (JArray [rec_url ''a'', rec_url ''a'']), s1)"
    by (simp add: prod_eq_iff P_def s1_def stub_gh_searches)
  have r2: "searchPullRequests P ''memory leak'' (Some 10) s1
              = (Inr (JArray [rec_url ''a'', rec_url ''a'']), s2)"
    by (simp add: prod_eq_iff P_def s2_def stub_gh_searches)
  have r3: "searchCode P ''memory leak'' (Some 10) s2
              = (Inr (JArray [rec_url ''a'', rec_url ''a'']), s3)"
    by (simp add: prod_eq_iff P_def s3_def stub_gh_searches)
  have r4: "searchCommits P ''memory leak'' (Some 5) s3
              = (Inr (JArray [rec_url ''a'', rec_url ''a'']), s4)"
    by (simp add: prod_eq_iff P_def s4_def stub_gh_searches)
  from post_search_returns_search_results [OF ne r1 r2 r3 r4] r1 show ?thesis
    by (simp add: P_def)
qed

text \<open>
  C5, as stated, fails: when the Search Client returns two records with the same
  \<^verbatim>\<open>url\<close>, the response of \<^verbatim>\<open>POST /api/search\<close> holds both, and is not the body with
  the deduplicated lists.
\<close>

theorem post_search_deduplicates_counterexample:
  "fst (searchIssues (stub_gh [rec_url ''a'', rec_url ''a'']) ''memory leak'' (Some 10) s0)
     = Inr (JArray [rec_url ''a'', rec_url ''a''])
   \<and> deduplicateByUrl [rec_url ''a'', rec_url ''a''] = [rec_url ''a'']
   \<and> fst (post_search (github (stub_gh [rec_url ''a'', rec_url ''a'']))
            \<lparr>query = Some ''memory leak''\<rparr> s0)
       \<noteq> Some \<lparr>status = 200,
               json = SearchJson
                 \<lparr>issues = JArray (deduplicateByUrl [rec_url ''a'', rec_url ''a'']),
                  pullRequests = JArray (deduplicateByUrl [rec_url ''a'', rec_url ''a'']),
                  code = JArray (deduplicateByUrl [rec_url ''a'', rec_url ''a'']),
                  commits = JArray (deduplicateByUrl [rec_url ''a'', rec_url ''a'']),
                  summary = \<lparr>issuesFound = Some (JNumber 1), prsFound = Some (JNumber 1),
                              codeFilesFound = Some (JNumber 1),
                              commitsFound = Some (JNumber 1)\<rparr>\<rparr>\<rparr>"
  by (simp add: stub_gh_searches deduplicateByUrl_simps post_search_def github_def
        split_beta stub_gh_comprehensiveSearch split: sum.splits)


section \<open>The multi-keyword orchestrator\<close>

lemma url_record_element: "url (record_element r) = url r"
  by (simp add: record_element_def)

text \<open>
  With a \<^verbatim>\<open>gh\<close> whose parsed output is always falsy, an array or a string, every
  search result can be spread, and the orchestrator produces a bundle.
\<close>

lemma spread_iterable: "iterable v \<Longrightarrow> \<exists>xs. spread v = Inr xs"
  by (cases v) simp_all

lemma search_keywords_fulfils:
  assumes "\<And>k s. \<exists>b s'. github_comprehensiveSearch g k s = (Inr b, s')
             \<and> iterable (issues b) \<and> iterable (pullRequests b)
             \<and> iterable (code b) \<and> iterable (commits b)"
  shows "\<exists>r s'. search_keywords g kws r0 s = (Inr r, s')"
proof (induction kws arbitrary: r0 s)
  case Nil
  show ?case by simp
next
  case (Cons k ks)
  obtain b s1 where b: "github_comprehensiveSearch g k s = (Inr b, s1)"
    and it: "iterable (issues b)" "iterable (pullRequests b)" "iterable (code b)"
      "iterable (commits b)"
    using assms [of k s] by blast
  obtain x1 where x1: "spread (issues b) = Inr x1"
    using spread_iterable [OF it(1)] by blast
  obtain x2 where x2: "spread (pullRequests b) = Inr x2"
    using spread_iterable [OF it(2)] by blast
  obtain x3 where x3: "spread (code b) = Inr x3"
    using spread_iterable [OF it(3)] by blast
  obtain x4 where x4: "spread (commits b) = Inr x4"
    using spread_iterable [OF it(4)] by blast
  from b x1 x2 x3 x4 Cons.IH show ?case
    by simp
qed

lemma orchestrate_fulfils:
  assumes "\<And>out v. JSON_parse P out = Inr v \<Longrightarrow> json_truthy v \<Longrightarrow> iterable v"
  shows "\<exists>b s'. orchestrate (github P) kws s = (Inr b, s')"
proof -
  have gh: "iterable (or_empty (fst (ghCommand P args t)))" for args t
    using assms
    by (auto simp: or_empty_def ghCommand_def ghCommand_try_def Let_def
             split: prod.splits sum.splits)
  have "\<exists>b s'. github_comprehensiveSearch (github P) k t = (Inr b, s')
             \<and> iterable (issues b) \<and> iterable (pullRequests b)
             \<and> iterable (code b) \<and> iterable (commits b)" for k t
    by (simp add: github_def
          comprehensiveSearch_result
            [OF searchIssues_result searchPullRequests_result searchCode_result
                searchCommits_result] gh)
  from search_keywords_fulfils [of "github P", OF this]
  obtain r s' where
    "search_keywords (github P) kws \<lparr>issues = [], pullRequests = [], code = [], commits = []\<rparr> s
       = (Inr r, s')"
    by blast
  then show ?thesis
    by (simp add: orchestrate_def Let_def)
qed

text \<open>
  C2: in the bundle that the multi-keyword orchestrator produces, no two records of the
  issues list share a \<^verbatim>\<open>url\<close>, and likewise for the pull requests, the code hits and
  the commits. (Nothing is said across the lists: in the run below the four lists hold
  the same records.)
\<close>

theorem orchestrate_distinct_urls:
  assumes "fst (orchestrate g keywords s) = Inr b"
  shows "distinct (map url (issues b)) \<and> distinct (map url (pullRequests b))
         \<and> distinct (map url (code b)) \<and> distinct (map url (commits b))"
  using assms
  by (auto simp: orchestrate_def Let_def distinct_deduplicateByUrl split: prod.splits sum.splits)

lemma stub_gh_search_keywords:
  "fst (search_keywords (github (stub_gh fixtures)) kws r0 s) =
     Inr \<lparr>issues = issues r0 @ concat (map (\<lambda>k. map record_element fixtures) kws),
          pullRequests = pullRequests r0 @ concat (map (\<lambda>k. map record_element fixtures) kws),
          code = code r0 @ concat (map (\<lambda>k. map record_element fixtures) kws),
          commits = commits r0 @ concat (map (\<lambda>k. map record_element fixtures) kws)\<rparr>"
proof (induction kws arbitrary: r0 s)
  case Nil
  show ?case by simp
next
  case (Cons k ks)
  obtain s' where "comprehensiveSearch (stub_gh fixtures) k s =
     (Inr \<lparr>issues = JArray fixtures, pullRequests = JArray fixtures, code = JArray fixtures,
           commits = JArray fixtures,
           summary = \<lparr>issuesFound = Some (JNumber (of_nat (length fixtures))),
                       prsFound = Some (JNumber (of_nat (length fixtures))),
                       codeFilesFound = Some (JNumber (of_nat (length fixtures))),
                       commitsFound = Some (JNumber (of_nat (length fixtures)))\<rparr>\<rparr>, s')"
    using stub_gh_comprehensiveSearch [of fixtures k s]
    by (cases "comprehensiveSearch (stub_gh fixtures) k s") simp
  then show ?case
    by (simp add: github_def Cons.IH [unfolded github_def])
qed

lemma stub_gh_orchestrate:
  "fst (orchestrate (github (stub_gh fixtures)) kws s) =
     (let ds = deduplicateByUrl (concat (map (\<lambda>k. map record_element fixtures) kws))
      in Inr \<lparr>issues = ds, pullRequests = ds, code = ds, commits = ds,
              summary = \<lparr>issuesFound = length ds, prsFound = length ds,
                          codeFilesFound = length ds, commitsFound = length ds\<rparr>\<rparr>)"
proof -
  obtain s' where
    "search_keywords (github (stub_gh fixtures)) kws
       \<lparr>issues = [], pullRequests = [], code = [], commits = []\<rparr> s =
     (Inr \<lparr>issues = concat (map (\<lambda>k. map record_element fixtures) kws),
           pullRequests = concat (map (\<lambda>k. map record_element fixtures) kws),
           code = concat (map (\<lambda>k. map record_element fixtures) kws),
           commits = concat (map (\<lambda>k. map record_element fixtures) kws)\<rparr>, s')"
    using stub_gh_search_keywords
      [of fixtures kws "\<lparr>issues = [], pullRequests = [], code = [], commits = []\<rparr>" s]
    by (cases "search_keywords (github (stub_gh fixtures)) kws
                 \<lparr>issues = [], pullRequests = [], code = [], commits = []\<rparr> s") simp
  then show ?thesis
    by (simp add: orchestrate_def Let_def)
qed

theorem orchestrate_distinct_urls_witness:
  "fst (orchestrate (github (stub_gh [rec_url ''a'', rec_url ''b'', rec_url ''a'']))
          [''auth bug'', ''login''] s0)
     = Inr \<lparr>issues = map record_element [rec_url ''a'', rec_url ''b''],
            pullRequests = map record_element [rec_url ''a'', rec_url ''b''],
            code = map record_element [rec_url ''a'', rec_url ''b''],
            commits = map record_element [rec_url ''a'', rec_url ''b''],
            summary = \<lparr>issuesFound = 2, prsFound = 2, codeFilesFound = 2, commitsFound = 2\<rparr>\<rparr>
   \<and> distinct (map url (map record_element [rec_url ''a'', rec_url ''b'']))"
proof -
  have run: "fst (orchestrate (github (stub_gh [rec_url ''a'', rec_url ''b'', rec_url ''a'']))
          [''auth bug'', ''login''] s0)
     = Inr \<lparr>issues = map record_element [rec_url ''a'', rec_url ''b''],
            pullRequests = map record_element [rec_url ''a'', rec_url ''b''],
            code = map record_element [rec_url ''a'', rec_url ''b''],
            commits = map record_element [rec_url ''a'', rec_url ''b''],
            summary = \<lparr>issuesFound = 2, prsFound = 2, codeFilesFound = 2, commitsFound = 2\<rparr>\<rparr>"
    by (simp add: stub_gh_orchestrate deduplicateByUrl_keep_unseen rec_url_def Let_def
          record_element_def)
  from orchestrate_distinct_urls [OF run] run show ?thesis by simp
qed

text \<open>
  C8: with an empty keyword list the orchestrator produces the bundle with four empty
  lists and four zero counts, and the state is the one it started from: no call to the
  Search Client (or to anything else) was made.
\<close>

theorem orchestrate_no_keywords:
  "orchestrate g [] s =
     (Inr \<lparr>issues = [], pullRequests = [], code = [], commits = [],
           summary = \<lparr>issuesFound = 0, prsFound = 0, codeFilesFound = 0, commitsFound = 0\<rparr>\<rparr>,
      s)"
  by (simp add: orchestrate_def deduplicateByUrl_simps)


section \<open>The chat route\<close>



text \<open>
  C7: a \<^verbatim>\<open>POST /api/chat\<close> whose body has a \<^verbatim>\<open>message\<close> and no \<^verbatim>\<open>apiKey\<close> is answered
  with status 400 and the error text about the API key, and the state is unchanged:
  neither the keyword extractor, nor the Search Client, nor the answer synthesizer was
  called.
\<close>

theorem post_chat_requires_apiKey:
  assumes "truthy (message body)" and "apiKey body = None"
  shows "post_chat g llm body s =
           (Some \<lparr>status = 400,
                  json = ErrorJson
                    ''API key is required. Please enter your Anthropic API key in settings.''\<rparr>,
            s)
         \<and> calls (snd (post_chat g llm body s)) = calls s"
  using assms by (simp add: post_chat_def)

theorem post_chat_requires_apiKey_witness:
  "truthy (message \<lparr>message = Some ''why is login slow?'', apiKey = None, systemPrompt = None\<rparr>)
   \<and> apiKey \<lparr>message = Some ''why is login slow?'', apiKey = None, systemPrompt = None\<rparr> = None
   \<and> post_chat (github (stub_gh [rec_url ''a''])) (stub_llm (Inr [''login'']) (Inr ''answer''))
        \<lparr>message = Some ''why is login slow?'', apiKey = None, systemPrompt = None\<rparr> s0
       = (Some \<lparr>status = 400,
                json = ErrorJson
                  ''API key is required. Please enter your Anthropic API key in settings.''\<rparr>,
          s0)
   \<and> calls s0 = []"
  using post_chat_requires_apiKey
    [of "\<lparr>message = Some ''why is login slow?'', apiKey = None, systemPrompt = None\<rparr>"
        "github (stub_gh [rec_url ''a''])" "stub_llm (Inr [''login'']) (Inr ''answer'')" s0]
  by (simp add: s0_def)







section \<open>The repositories route\<close>

text \<open>
  C9, as stated, fails: with a \<^verbatim>\<open>gh\<close> that exits with an error, listing the
  repositories fails, and \<^verbatim>\<open>GET /api/repos\<close> responds 200 with an empty list, not 500.
\<close>

theorem get_repos_failure_counterexample:
  "gh_fails failing_gh (listRepos_args failing_gh) (world s0)
   \<and> fst (get_repos (github failing_gh) s0)
       = Some \<lparr>status = 200, json = ReposJson (JArray []) ''brandnewbox''\<rparr>
   \<and> fst (get_repos (github failing_gh) s0)
       \<noteq> Some \<lparr>status = 500, json = ErrorJson ''Failed to list repositories''\<rparr>"
proof -
  have "fst (ghCommand failing_gh (listRepos_args failing_gh) s0) = JNull"
    by (rule ghCommand_fails) (rule failing_gh_fails)
  moreover have "GITHUB_ORG failing_gh = ''brandnewbox''"
    by (simp add: GITHUB_ORG_def failing_gh_def)
  ultimately show ?thesis
    by (simp add: failing_gh_fails get_repos_def github_def listRepos_result or_empty_def)
qed

text \<open>
  C9, as amended: \<^verbatim>\<open>GET /api/repos\<close> responds 500 with \<^verbatim>\<open>Failed to list repositories\<close>
  when the \<^verbatim>\<open>listRepos\<close> it calls rejects, and only then; when \<^verbatim>\<open>listRepos\<close> fulfils
  with \<open>repos\<close> it responds 200 with \<open>repos\<close> and the organisation name. The
  \<^verbatim>\<open>listRepos\<close> of the repository never rejects: when the \<^verbatim>\<open>gh\<close> invocation fails it
  fulfils with the empty list, and the route responds 200 with an empty \<open>repos\<close>; when
  \<^verbatim>\<open>gh repo list\<close> succeeds, the route responds 200 with what it printed (the empty list
  if that is falsy).
\<close>

theorem get_repos_responses:
  "(isl (fst (github_listRepos g s))
      \<longrightarrow> fst (get_repos g s)
            = Some \<lparr>status = 500, json = ErrorJson ''Failed to list repositories''\<rparr>)
   \<and> ((\<exists>r. fst (get_repos g s) = Some r \<and> status r = 500)
      \<longrightarrow> isl (fst (github_listRepos g s)))
   \<and> (fst (github_listRepos g s) = Inr repos
      \<longrightarrow> fst (get_repos g s)
            = Some \<lparr>status = 200, json = ReposJson repos (github_GITHUB_ORG g)\<rparr>)
   \<and> \<not> isl (fst (listRepos P t))
   \<and> (gh_fails P (listRepos_args P) (world t)
      \<longrightarrow> fst (get_repos (github P) t)
            = Some \<lparr>status = 200, json = ReposJson (JArray []) (GITHUB_ORG P)\<rparr>)
   \<and> (execSync P (''gh '' @ listRepos_args P) (world t) = (Inr out, w')
        \<and> JSON_parse P out = Inr v
      \<longrightarrow> fst (get_repos (github P) t)
            = Some \<lparr>status = 200,
                    json = ReposJson (if json_truthy v then v else JArray []) (GITHUB_ORG P)\<rparr>)"
proof (intro conjI impI)
  assume "isl (fst (github_listRepos g s))"
  then show "fst (get_repos g s)
          = Some \<lparr>status = 500, json = ErrorJson ''Failed to list repositories''\<rparr>"
    by (cases "github_listRepos g s") (auto simp: get_repos_def isl_def)
next
  assume "\<exists>r. fst (get_repos g s) = Some r \<and> status r = 500"
  then show "isl (fst (github_listRepos g s))"
    by (cases "github_listRepos g s") (auto simp: get_repos_def split: sum.splits)
next
  assume "fst (github_listRepos g s) = Inr repos"
  then show "fst (get_repos g s)
          = Some \<lparr>status = 200, json = ReposJson repos (github_GITHUB_ORG g)\<rparr>"
    by (cases "github_listRepos g s") (simp add: get_repos_def)
next
  show "\<not> isl (fst (listRepos P t))"
    by (simp add: listRepos_result)
next
  assume "gh_fails P (listRepos_args P) (world t)"
  then have "fst (ghCommand P (listRepos_args P) t) = JNull"
    by (rule ghCommand_fails)
  then show "fst (get_repos (github P) t)
          = Some \<lparr>status = 200, json = ReposJson (JArray []) (GITHUB_ORG P)\<rparr>"
    by (simp add: get_repos_def github_def listRepos_result or_empty_def)
next
  assume "execSync P (''gh '' @ listRepos_args P) (world t) = (Inr out, w')
      \<and> JSON_parse P out = Inr v"
  then have "fst (ghCommand P (listRepos_args P) t) = v"
    by (simp add: ghCommand_parsed)
  then show "fst (get_repos (github P) t)
          = Some \<lparr>status = 200,
                  json = ReposJson (if json_truthy v then v else JArray []) (GITHUB_ORG P)\<rparr>"
    by (simp add: get_repos_def github_def listRepos_result or_empty_def)
qed

theorem get_repos_responses_witness:
  "execSync (stub_gh [rec_url ''a'', rec_url ''b''])
     (''gh '' @ listRepos_args (stub_gh [rec_url ''a'', rec_url ''b''])) (world s0)
     = (Inr ''output'', ())
   \<and> JSON_parse (stub_gh [rec_url ''a'', rec_url ''b'']) ''output''
       = Inr (JArray [rec_url ''a'', rec_url ''b''])
   \<and> fst (get_repos (github (stub_gh [rec_url ''a'', rec_url ''b''])) s0)
       = Some \<lparr>status = 200,
               json = ReposJson (JArray [rec_url ''a'', rec_url ''b'']) ''brandnewbox''\<rparr>
   \<and> gh_fails garbled_gh (listRepos_args garbled_gh) (world s0)
   \<and> fst (get_repos (github garbled_gh) s0)
       = Some \<lparr>status = 200, json = ReposJson (JArray []) ''acme''\<rparr>
   \<and> isl (fst (github_listRepos rejecting_github s0))
   \<and> fst (get_repos rejecting_github s0)
       = Some \<lparr>status = 500, json = ErrorJson ''Failed to list repositories''\<rparr>
   \<and> fst (github_listRepos (github garbled_gh) s0) = Inr (JArray [])"
proof -
  define S where "S = stub_gh [rec_url ''a'', rec_url ''b'']"
  have ok1: "execSync S (''gh '' @ listRepos_args S) (world s0) = (Inr ''output'', ())"
    by (simp add: S_def stub_gh_def parsed_gh_def)
  have ok2: "JSON_parse S ''output'' = Inr (JArray [rec_url ''a'', rec_url ''b''])"
    by (simp add: S_def stub_gh_def parsed_gh_def)
  have org1: "GITHUB_ORG S = ''brandnewbox''"
    by (simp add: GITHUB_ORG_def S_def stub_gh_def parsed_gh_def)
  have org2: "GITHUB_ORG garbled_gh = ''acme''"
    by (simp add: GITHUB_ORG_def garbled_gh_def)
  have fails: "gh_fails garbled_gh (listRepos_args garbled_gh) (world s0)"
    by (rule garbled_gh_fails)
  have rejects: "isl (fst (github_listRepos rejecting_github s0))"
    by (simp add: rejecting_github_def)
  have fulfils: "fst (github_listRepos (github garbled_gh) s0) = Inr (JArray [])"
    using ghCommand_fails [OF fails]
    by (simp add: github_def listRepos_result or_empty_def)
  have org3: "github_GITHUB_ORG (github garbled_gh) = ''acme''"
    by (simp add: github_def org2)
  from org3 get_repos_responses
         [of rejecting_github s0 "JArray []" S s0 "''output''" "()"
             "JArray [rec_url ''a'', rec_url ''b'']"]
       get_repos_responses
         [of "github garbled_gh" s0 "JArray []" garbled_gh s0 "''output''" "()" JNull]
       ok1 ok2 org1 org2 fails rejects fulfils
  show ?thesis
    unfolding S_def by simp
qed

end
